theory Spec2Isabelle
  imports Complex_Main
begin

section \<open>Data model (models.py)\<close>

text \<open>
  The Python source computes with \<open>float\<close>. Here a float is an exact rational number:
  every arithmetic operation of the source is the corresponding exact operation on
  \<open>rat\<close>, and NaN, infinities and binary rounding error are outside the model.
  A \<open>datetime\<close> is a number of microseconds on the wall clock; \<open>datetime.now()\<close> is an
  extra argument of each function that reads the clock.
\<close>

type_synonym datetime = int

datatype Side = BUY | SELL

datatype Outcome = YES | NO

datatype OrderStatus = PENDING | LIVE | FILLED | PARTIALLY_FILLED | CANCELLED | FAILED

datatype StrategyMode = OPEN | HEDGE_YES | HEDGE_NO | EMERGENCY | COOLDOWN | STOPPED

record OrderBookLevel =
  lvl_price :: rat
  lvl_size :: rat

record OrderBook =
  asset_id :: string
  bids :: "OrderBookLevel list"
  asks :: "OrderBookLevel list"
  timestamp :: datetime

record LiveOrder =
  order_id :: string
  lo_asset_id :: string
  lo_outcome :: Outcome
  lo_side :: Side
  lo_price :: rat
  lo_size :: rat
  filled_size :: rat
  status :: OrderStatus

record InventoryState =
  q_yes :: rat
  c_yes :: rat
  q_no :: rat
  c_no :: rat
  locked_profit :: rat
  locked_quantity :: rat
  completed_rounds :: int
  total_trades :: int
  total_volume :: rat
  created_at :: datetime
  updated_at :: datetime

text \<open>\<open>InventoryState()\<close> with every default; both timestamps are the clock reading.\<close>

definition InventoryState_init :: "datetime \<Rightarrow> InventoryState" where
  "InventoryState_init now =
     \<lparr>q_yes = 0, c_yes = 0, q_no = 0, c_no = 0, locked_profit = 0, locked_quantity = 0,
      completed_rounds = 0, total_trades = 0, total_volume = 0,
      created_at = now, updated_at = now\<rparr>"

subsection \<open>OrderBook accessors\<close>

datatype py_error = ValueError | TypeError

text \<open>
  Python's \<open>max(g)\<close> and \<open>min(g)\<close> over a generator: \<open>ValueError\<close> on an empty one,
  otherwise a left-to-right scan that keeps the running extremum (the first one among
  equals).
\<close>

fun py_max :: "rat list \<Rightarrow> py_error + rat" where
  "py_max [] = Inl ValueError"
| "py_max (x # xs) = Inr (fold (\<lambda>y m. if y > m then y else m) xs x)"

fun py_min :: "rat list \<Rightarrow> py_error + rat" where
  "py_min [] = Inl ValueError"
| "py_min (x # xs) = Inr (fold (\<lambda>y m. if y < m then y else m) xs x)"

definition best_bid :: "OrderBook \<Rightarrow> py_error + rat option" where
  "best_bid ob =
     (if bids ob = [] then Inr None
      else case py_max (map lvl_price (bids ob)) of
             Inl e \<Rightarrow> Inl e
           | Inr m \<Rightarrow> Inr (Some m))"

definition best_ask :: "OrderBook \<Rightarrow> py_error + rat option" where
  "best_ask ob =
     (if asks ob = [] then Inr None
      else case py_min (map lvl_price (asks ob)) of
             Inl e \<Rightarrow> Inl e
           | Inr m \<Rightarrow> Inr (Some m))"

text \<open>
  \<open>mid_price\<close> and \<open>spread\<close> read the two properties in the order of the source: the
  \<open>or\<close> stops at an empty bid side, and the arithmetic reads both again.
\<close>

definition mid_price :: "OrderBook \<Rightarrow> py_error + rat option" where
  "mid_price ob =
     (case best_bid ob of
        Inl e \<Rightarrow> Inl e
      | Inr None \<Rightarrow> Inr None
      | Inr (Some b) \<Rightarrow>
          (case best_ask ob of
             Inl e \<Rightarrow> Inl e
           | Inr None \<Rightarrow> Inr None
           | Inr (Some a) \<Rightarrow> Inr (Some ((b + a) / 2))))"

definition spread :: "OrderBook \<Rightarrow> py_error + rat option" where
  "spread ob =
     (case best_bid ob of
        Inl e \<Rightarrow> Inl e
      | Inr None \<Rightarrow> Inr None
      | Inr (Some b) \<Rightarrow>
          (case best_ask ob of
             Inl e \<Rightarrow> Inl e
           | Inr None \<Rightarrow> Inr None
           | Inr (Some a) \<Rightarrow> Inr (Some (a - b))))"

definition is_active :: "LiveOrder \<Rightarrow> bool" where
  "is_active order \<longleftrightarrow> status order \<in> {PENDING, LIVE, PARTIALLY_FILLED}"

subsection \<open>InventoryState\<close>

definition mu_yes :: "InventoryState \<Rightarrow> rat" where
  "mu_yes ivs = (if q_yes ivs = 0 then 0 else c_yes ivs / q_yes ivs)"

definition mu_no :: "InventoryState \<Rightarrow> rat" where
  "mu_no ivs = (if q_no ivs = 0 then 0 else c_no ivs / q_no ivs)"

definition delta_q :: "InventoryState \<Rightarrow> rat" where
  "delta_q ivs = q_yes ivs - q_no ivs"

definition combined_vwap :: "InventoryState \<Rightarrow> rat" where
  "combined_vwap ivs = mu_yes ivs + mu_no ivs"

definition record_fill ::
  "InventoryState \<Rightarrow> Outcome \<Rightarrow> Side \<Rightarrow> rat \<Rightarrow> rat \<Rightarrow> datetime \<Rightarrow> InventoryState" where
  "record_fill ivs outcome side price fill_size now =
     (let ivs1 = ivs\<lparr>total_trades := total_trades ivs + 1,
                     total_volume := total_volume ivs + price * fill_size,
                     updated_at := now\<rparr>
      in if outcome = YES then
           (if side = BUY then
              ivs1\<lparr>c_yes := c_yes ivs1 + price * fill_size, q_yes := q_yes ivs1 + fill_size\<rparr>
            else if q_yes ivs1 > 0 then
              (let avg_cost = c_yes ivs1 / q_yes ivs1
               in ivs1\<lparr>c_yes := c_yes ivs1 - avg_cost * min fill_size (q_yes ivs1),
                       q_yes := max 0 (q_yes ivs1 - fill_size)\<rparr>)
            else ivs1)
         else
           (if side = BUY then
              ivs1\<lparr>c_no := c_no ivs1 + price * fill_size, q_no := q_no ivs1 + fill_size\<rparr>
            else if q_no ivs1 > 0 then
              (let avg_cost = c_no ivs1 / q_no ivs1
               in ivs1\<lparr>c_no := c_no ivs1 - avg_cost * min fill_size (q_no ivs1),
                       q_no := max 0 (q_no ivs1 - fill_size)\<rparr>)
            else ivs1))"

text \<open>The parameter \<open>c_target\<close> is accepted and never read, as in the source.\<close>

definition lock_profit :: "InventoryState \<Rightarrow> rat \<Rightarrow> InventoryState" where
  "lock_profit ivs c_target =
     (let lockable = min (q_yes ivs) (q_no ivs)
      in if lockable \<le> locked_quantity ivs then ivs
         else
           (let new_locked = lockable - locked_quantity ivs;
                profit_per_share = 1 - combined_vwap ivs
            in if profit_per_share > 0 then
                 ivs\<lparr>locked_profit := locked_profit ivs + new_locked * profit_per_share,
                     locked_quantity := lockable,
                     completed_rounds := completed_rounds ivs + 1\<rparr>
               else ivs))"

subsection \<open>Persistence: to_dict and from_dict\<close>

text \<open>
  A value stored in the dictionary. \<open>PyIsoStr d\<close> is the string
  \<open>d.isoformat()\<close>, which \<open>datetime.fromisoformat\<close> parses back to \<open>d\<close>; \<open>PyOther\<close> is
  any value that is neither a number nor such a string. The dictionary is the list of
  its items in insertion order.
\<close>

datatype py_value = PyFloat rat | PyInt int | PyIsoStr datetime | PyOther

type_synonym py_dict = "(string \<times> py_value) list"

definition to_dict :: "InventoryState \<Rightarrow> py_dict" where
  "to_dict ivs =
     [(''q_yes'', PyFloat (q_yes ivs)),
      (''c_yes'', PyFloat (c_yes ivs)),
      (''q_no'', PyFloat (q_no ivs)),
      (''c_no'', PyFloat (c_no ivs)),
      (''locked_profit'', PyFloat (locked_profit ivs)),
      (''locked_quantity'', PyFloat (locked_quantity ivs)),
      (''total_trades'', PyInt (total_trades ivs)),
      (''total_volume'', PyFloat (total_volume ivs)),
      (''created_at'', PyIsoStr (created_at ivs)),
      (''updated_at'', PyIsoStr (updated_at ivs))]"

text \<open>
  \<open>data.get(key, default)\<close> for a field annotated \<open>float\<close> or \<open>int\<close>. The source stores
  whatever value the dictionary holds; a value of another type has no counterpart in
  the typed record and is reported as \<open>TypeError\<close> here.
\<close>

definition get_float :: "py_dict \<Rightarrow> string \<Rightarrow> rat \<Rightarrow> py_error + rat" where
  "get_float data key dflt =
     (case map_of data key of
        None \<Rightarrow> Inr dflt
      | Some (PyFloat r) \<Rightarrow> Inr r
      | Some (PyInt n) \<Rightarrow> Inr (of_int n)
      | Some _ \<Rightarrow> Inl TypeError)"

definition get_int :: "py_dict \<Rightarrow> string \<Rightarrow> int \<Rightarrow> py_error + int" where
  "get_int data key dflt =
     (case map_of data key of
        None \<Rightarrow> Inr dflt
      | Some (PyInt n) \<Rightarrow> Inr n
      | Some _ \<Rightarrow> Inl TypeError)"

text \<open>
  \<open>datetime.fromisoformat(data[key]) if key in data else datetime.now()\<close>: a string
  that is no ISO timestamp raises \<open>ValueError\<close>, a value that is no string \<open>TypeError\<close>.
\<close>

definition get_datetime :: "py_dict \<Rightarrow> string \<Rightarrow> datetime \<Rightarrow> py_error + datetime" where
  "get_datetime data key now =
     (case map_of data key of
        None \<Rightarrow> Inr now
      | Some (PyIsoStr d) \<Rightarrow> Inr d
      | Some PyOther \<Rightarrow> Inl ValueError
      | Some _ \<Rightarrow> Inl TypeError)"

definition bind_err :: "py_error + 'a \<Rightarrow> ('a \<Rightarrow> py_error + 'b) \<Rightarrow> py_error + 'b" where
  "bind_err r f = (case r of Inl e \<Rightarrow> Inl e | Inr v \<Rightarrow> f v)"

text \<open>
  The constructor call of \<open>from_dict\<close> passes no \<open>completed_rounds\<close>, so the field takes
  its default 0. The arguments are evaluated in the order written.
\<close>

definition from_dict :: "py_dict \<Rightarrow> datetime \<Rightarrow> py_error + InventoryState" where
  "from_dict data now =
     bind_err (get_float data ''q_yes'' 0) (\<lambda>qy.
     bind_err (get_float data ''c_yes'' 0) (\<lambda>cy.
     bind_err (get_float data ''q_no'' 0) (\<lambda>qn.
     bind_err (get_float data ''c_no'' 0) (\<lambda>cn.
     bind_err (get_float data ''locked_profit'' 0) (\<lambda>lp.
     bind_err (get_float data ''locked_quantity'' 0) (\<lambda>lq.
     bind_err (get_int data ''total_trades'' 0) (\<lambda>tt.
     bind_err (get_float data ''total_volume'' 0) (\<lambda>tv.
     bind_err (get_datetime data ''created_at'' now) (\<lambda>ca.
     bind_err (get_datetime data ''updated_at'' now) (\<lambda>ua.
       Inr \<lparr>q_yes = qy, c_yes = cy, q_no = qn, c_no = cn, locked_profit = lp,
            locked_quantity = lq, completed_rounds = 0, total_trades = tt,
            total_volume = tv, created_at = ca, updated_at = ua\<rparr>))))))))))"

subsection \<open>Sequences of ledger calls\<close>








section \<open>Price policy (config.py)\<close>

text \<open>
  The fields of \<open>Config\<close> that the modelled functions read, with \<open>profit_margin\<close> and
  \<open>min_order_size\<close>; network, logging and persistence settings are left out.
\<close>

record Config =
  profit_margin :: rat
  c_target :: rat
  max_exposure :: rat
  trap_order_size :: rat
  min_order_size :: rat
  range_min :: rat
  range_max :: rat
  token_id_yes :: string
  token_id_no :: string

text \<open>
  Python's \<open>round(x, 2)\<close>: the nearest multiple of 0.01, an exact tie going to the even
  multiple.
\<close>

definition py_round2 :: "rat \<Rightarrow> rat" where
  "py_round2 x =
     (let y = x * 100; f = \<lfloor>y\<rfloor>; d = y - of_int f
      in of_int (if d < 1/2 then f else if d > 1/2 then f + 1
                 else if even f then f else f + 1) / 100)"

definition compute_trap_price :: "Config \<Rightarrow> rat \<Rightarrow> rat \<Rightarrow> rat option" where
  "compute_trap_price cfg opposing_ask own_ask =
     (if own_ask < range_min cfg \<or> own_ask > range_max cfg
         \<or> opposing_ask < range_min cfg \<or> opposing_ask > range_max cfg
      then None
      else
        (let trap_price = c_target cfg - opposing_ask
         in if trap_price \<le> 1/100 \<or> trap_price > 99/100 then None
            else Some (py_round2 trap_price)))"

definition compute_hedge_price :: "Config \<Rightarrow> rat \<Rightarrow> rat" where
  "compute_hedge_price cfg own_vwap =
     (let hedge_price = c_target cfg - own_vwap
      in py_round2 (max (1/100) (min (99/100) hedge_price)))"

text \<open>
  The configuration \<open>load_config\<close> builds when no environment variable overrides a
  default: \<open>c_target\<close> is \<open>1.0 - profit_margin\<close>. The two token ids have no usable
  default (market discovery fills them in); two distinct names stand for them.
\<close>

definition default_config :: Config where
  "default_config =
     \<lparr>profit_margin = 1/50, c_target = 1 - 1/50, max_exposure = 100,
      trap_order_size = 10, min_order_size = 1, range_min = 2/5, range_max = 3/5,
      token_id_yes = ''tok-yes'', token_id_no = ''tok-no''\<rparr>"

section \<open>Exchange client (polymarket_client.py)\<close>

text \<open>
  A request the client posts: a limit order (token, side, price, size, time in force), a
  fill-or-kill order (token, side, price, size) or a cancellation. The exchange is a
  function from the request to the order id of its answer, \<open>None\<close> when the order is
  rejected or the call raises: the client catches the exception and returns \<open>None\<close>. The
  client is taken to be initialised, so it never raises \<open>RuntimeError\<close>.
\<close>

datatype request =
    PlaceLimit string Side rat rat string
  | PlaceMarket string Side rat rat
  | CancelOrder string

type_synonym exchange = "request \<Rightarrow> string option"

definition place_limit_order ::
  "Config \<Rightarrow> exchange \<Rightarrow> string \<Rightarrow> Side \<Rightarrow> rat \<Rightarrow> rat \<Rightarrow> string \<Rightarrow> request \<times> LiveOrder option" where
  "place_limit_order cfg exch token_id side price0 sz time_in_force =
     (let price = py_round2 price0;
          req = PlaceLimit token_id side price sz time_in_force
      in (req,
          case exch req of
            None \<Rightarrow> None
          | Some oid \<Rightarrow>
              Some \<lparr>order_id = oid, lo_asset_id = token_id,
                    lo_outcome = (if token_id = token_id_yes cfg then YES else NO),
                    lo_side = side, lo_price = price, lo_size = sz,
                    filled_size = 0, status = LIVE\<rparr>))"

definition place_market_order ::
  "Config \<Rightarrow> exchange \<Rightarrow> string \<Rightarrow> Side \<Rightarrow> rat \<Rightarrow> rat option \<Rightarrow> request \<times> LiveOrder option" where
  "place_market_order cfg exch token_id side sz price_opt =
     (let price = (case price_opt of
                     None \<Rightarrow> (if side = BUY then 99/100 else 1/100)
                   | Some p \<Rightarrow> p);
          req = PlaceMarket token_id side (py_round2 price) sz
      in (req,
          case exch req of
            None \<Rightarrow> None
          | Some oid \<Rightarrow>
              Some \<lparr>order_id = oid, lo_asset_id = token_id,
                    lo_outcome = (if token_id = token_id_yes cfg then YES else NO),
                    lo_side = side, lo_price = price, lo_size = sz,
                    filled_size = 0, status = FILLED\<rparr>))"

section \<open>Strategy engine (strategy_engine.py)\<close>

text \<open>
  The engine with the fields its order and fill handling reads. \<open>tracked\<close> is the id
  set of the user channel that \<open>_track_order\<close> and \<open>_untrack_order\<close> update, and \<open>sent\<close>
  lists the requests posted to the exchange so far, oldest first. Every method runs to
  its end before the next one starts; logging is left out.
\<close>

record StrategyState =
  mode :: StrategyMode
  inventory :: InventoryState
  trap_order_yes :: "LiveOrder option"
  trap_order_no :: "LiveOrder option"
  hedge_order :: "LiveOrder option"
  orderbook_yes :: "OrderBook option"
  orderbook_no :: "OrderBook option"

record StrategyEngine =
  config :: Config
  state :: StrategyState
  placing_traps :: bool
  placing_hedge :: bool
  order_outcome :: "string \<rightharpoonup> Outcome"
  accepted_imbalance :: bool
  tracked :: "string set"
  sent :: "request list"

definition remember_order :: "StrategyEngine \<Rightarrow> string \<Rightarrow> Outcome \<Rightarrow> StrategyEngine" where
  "remember_order e oid outcome = e\<lparr>order_outcome := (order_outcome e)(oid \<mapsto> outcome)\<rparr>"

definition forget_order :: "StrategyEngine \<Rightarrow> string \<Rightarrow> StrategyEngine" where
  "forget_order e oid = e\<lparr>order_outcome := (order_outcome e)(oid := None)\<rparr>"

definition track_order :: "StrategyEngine \<Rightarrow> string \<Rightarrow> StrategyEngine" where
  "track_order e oid = e\<lparr>tracked := insert oid (tracked e)\<rparr>"

definition untrack_order :: "StrategyEngine \<Rightarrow> string \<Rightarrow> StrategyEngine" where
  "untrack_order e oid = forget_order (e\<lparr>tracked := tracked e - {oid}\<rparr>) oid"

definition switch_mode :: "StrategyEngine \<Rightarrow> StrategyMode \<Rightarrow> StrategyEngine" where
  "switch_mode e new_mode =
     (if mode (state e) \<noteq> new_mode then e\<lparr>state := (state e)\<lparr>mode := new_mode\<rparr>\<rparr> else e)"

definition cancel_trap :: "StrategyEngine \<Rightarrow> LiveOrder option \<Rightarrow> StrategyEngine" where
  "cancel_trap e order_opt =
     (case order_opt of
        None \<Rightarrow> e
      | Some order \<Rightarrow>
          if is_active order
          then untrack_order (e\<lparr>sent := sent e @ [CancelOrder (order_id order)]\<rparr>) (order_id order)
          else e)"

definition cancel_hedge :: "StrategyEngine \<Rightarrow> StrategyEngine" where
  "cancel_hedge e =
     (case hedge_order (state e) of
        None \<Rightarrow> e
      | Some order \<Rightarrow>
          if is_active order
          then untrack_order
                 (e\<lparr>state := (state e)\<lparr>hedge_order := None\<rparr>,
                    sent := sent e @ [CancelOrder (order_id order)]\<rparr>)
                 (order_id order)
          else e)"

definition place_hedge ::
  "exchange \<Rightarrow> StrategyEngine \<Rightarrow> Outcome \<Rightarrow> rat \<Rightarrow> rat \<Rightarrow> StrategyEngine" where
  "place_hedge exch e outcome price0 sz =
     (let token = (if outcome = YES then token_id_yes (config e) else token_id_no (config e));
          price = py_round2 (max (1/100) (min (99/100) price0));
          keep = (case hedge_order (state e) of
                    None \<Rightarrow> False
                  | Some h \<Rightarrow> is_active h \<and> lo_outcome h = outcome
                              \<and> \<bar>lo_price h - price\<bar> < 1/200);
          e0 = (case hedge_order (state e) of
                  None \<Rightarrow> e
                | Some h \<Rightarrow> if is_active h then cancel_hedge e else e)
      in if keep then e
         else
           (let (req, order_opt) = place_limit_order (config e0) exch token BUY price sz ''GTC'';
                e1 = e0\<lparr>sent := sent e0 @ [req]\<rparr>
            in case order_opt of
                 None \<Rightarrow> e1
               | Some order \<Rightarrow>
                   (let e2 = remember_order e1 (order_id order) outcome;
                        e3 = e2\<lparr>state := (state e2)\<lparr>hedge_order := Some order\<rparr>\<rparr>
                    in track_order e3 (order_id order))))"

text \<open>
  \<open>_mode_hedge\<close>. The constant 5 is the source's \<open>MIN_POLYMARKET_SIZE = 5.0\<close>; the
  \<open>finally\<close> clause resets \<open>_placing_hedge\<close> on every path that set it.
\<close>

definition mode_hedge :: "exchange \<Rightarrow> StrategyEngine \<Rightarrow> Outcome \<Rightarrow> StrategyEngine" where
  "mode_hedge exch e long_side =
     (if (case hedge_order (state e) of None \<Rightarrow> False | Some h \<Rightarrow> is_active h) then e
      else if placing_hedge e then e
      else
        (let e1 = e\<lparr>placing_hedge := True\<rparr>;
             new_mode = (if long_side = YES then HEDGE_YES else HEDGE_NO);
             ivs = inventory (state e1);
             e2 = (if mode (state e1) \<noteq> new_mode then switch_mode e1 new_mode else e1);
             e3 = (case trap_order_yes (state e2) of
                     None \<Rightarrow> e2
                   | Some trap \<Rightarrow>
                       cancel_trap (e2\<lparr>state := (state e2)\<lparr>trap_order_yes := None\<rparr>\<rparr>) (Some trap));
             e4 = (case trap_order_no (state e3) of
                     None \<Rightarrow> e3
                   | Some trap \<Rightarrow>
                       cancel_trap (e3\<lparr>state := (state e3)\<lparr>trap_order_no := None\<rparr>\<rparr>) (Some trap))
         in if orderbook_yes (state e4) = None \<or> orderbook_no (state e4) = None
            then e4\<lparr>placing_hedge := False\<rparr>
            else
              (let qty0 = \<bar>delta_q ivs\<bar>;
                   needs_overhedge = (qty0 < 5);
                   qty = (if needs_overhedge then 5 else qty0);
                   e5 = (if long_side = YES
                         then place_hedge exch e4 NO (compute_hedge_price (config e4) (mu_yes ivs)) qty
                         else place_hedge exch e4 YES (compute_hedge_price (config e4) (mu_no ivs)) qty)
               in e5\<lparr>placing_hedge := False\<rparr>)))"

text \<open>
  \<open>flatten_position\<close>. \<open>book.best_bid\<close> is tested for truth, so a best bid of 0 counts as
  absent; an exception inside the \<open>try\<close> block is logged and the method returns.
\<close>

definition bid_or_default :: "OrderBook option \<Rightarrow> py_error + rat" where
  "bid_or_default book =
     (case book of
        None \<Rightarrow> Inr (1/100)
      | Some ob \<Rightarrow>
          (case best_bid ob of
             Inl err \<Rightarrow> Inl err
           | Inr None \<Rightarrow> Inr (1/100)
           | Inr (Some b) \<Rightarrow> Inr (if b \<noteq> 0 then b else 1/100)))"

definition flatten_position :: "exchange \<Rightarrow> StrategyEngine \<Rightarrow> StrategyEngine" where
  "flatten_position exch e =
     (let ivs = inventory (state e);
          dq = delta_q ivs
      in if \<bar>dq\<bar> < 1/100 then e
         else if dq > 0 then
           (case bid_or_default (orderbook_yes (state e)) of
              Inl err \<Rightarrow> e
            | Inr bid \<Rightarrow>
                (let sz = dq;
                     price = max (1/100) (bid - 1/50);
                     (req, order_opt) =
                        place_market_order (config e) exch (token_id_yes (config e)) SELL sz (Some price);
                     e1 = e\<lparr>sent := sent e @ [req]\<rparr>
                 in case order_opt of
                      None \<Rightarrow> e1
                    | Some order \<Rightarrow>
                        e1\<lparr>state := (state e1)\<lparr>inventory := ivs\<lparr>q_yes := q_yes ivs - sz\<rparr>\<rparr>\<rparr>))
         else
           (case bid_or_default (orderbook_no (state e)) of
              Inl err \<Rightarrow> e
            | Inr bid \<Rightarrow>
                (let sz = \<bar>dq\<bar>;
                     price = max (1/100) (bid - 1/50);
                     (req, order_opt) =
                        place_market_order (config e) exch (token_id_no (config e)) SELL sz (Some price);
                     e1 = e\<lparr>sent := sent e @ [req]\<rparr>
                 in case order_opt of
                      None \<Rightarrow> e1
                    | Some order \<Rightarrow>
                        e1\<lparr>state := (state e1)\<lparr>inventory := ivs\<lparr>q_no := q_no ivs - sz\<rparr>\<rparr>\<rparr>)))"

text \<open>
  \<open>on_fill\<close>, up to the point where it schedules the next \<open>_step\<close> on the event loop.
\<close>

datatype order_type = TRAP_YES | TRAP_NO | HEDGE | UNKNOWN

definition slot_has_id :: "LiveOrder option \<Rightarrow> string \<Rightarrow> bool" where
  "slot_has_id slot oid = (case slot of None \<Rightarrow> False | Some order \<Rightarrow> order_id order = oid)"

definition on_fill ::
  "StrategyEngine \<Rightarrow> string \<Rightarrow> Outcome \<Rightarrow> rat \<Rightarrow> rat \<Rightarrow> datetime \<Rightarrow> StrategyEngine" where
  "on_fill e oid outcome0 price fill_size now =
     (let st = state e;
          otype = (if slot_has_id (trap_order_yes st) oid then TRAP_YES
                   else if slot_has_id (trap_order_no st) oid then TRAP_NO
                   else if slot_has_id (hedge_order st) oid then HEDGE
                   else UNKNOWN)
      in if otype = UNKNOWN then e
         else
           (let outcome = (case order_outcome e oid of
                             None \<Rightarrow> outcome0
                           | Some mapped \<Rightarrow> if outcome0 \<noteq> mapped then mapped else outcome0);
                ivs1 = record_fill (inventory st) outcome BUY price fill_size now;
                st1 = (if otype = TRAP_YES then st\<lparr>trap_order_yes := None\<rparr>
                       else if otype = TRAP_NO then st\<lparr>trap_order_no := None\<rparr>
                       else st\<lparr>hedge_order := None\<rparr>);
                ivs2 = (if otype = HEDGE \<and> \<bar>delta_q ivs1\<bar> < 1/2
                        then lock_profit ivs1 (c_target (config e)) else ivs1)
            in forget_order (e\<lparr>state := st1\<lparr>inventory := ivs2\<rparr>\<rparr>) oid))"

section \<open>Fill stream (user_channel.py)\<close>

text \<open>
  A numeric field of a message: absent, a number (or a string \<open>float()\<close> parses), or a
  value on which \<open>float()\<close> raises. The manager keeps the configuration, the set of
  tracked order ids and whether a fill callback is installed; a fill handed to the
  callback is the tuple (order id, outcome, price, size). Connection state and
  statistics are left out.
\<close>

datatype num_field = Absent | Num rat | NotNum

fun py_float :: "num_field \<Rightarrow> rat \<Rightarrow> py_error + rat" where
  "py_float Absent dflt = Inr dflt"
| "py_float (Num r) dflt = Inr r"
| "py_float NotNum dflt = Inl ValueError"

record MakerOrder =
  mo_order_id :: "string option"
  mo_price :: num_field
  mo_matched_amount :: num_field
  mo_size :: num_field
  mo_asset_id :: "string option"

record TradeEvent =
  tr_status :: "string option"
  tr_asset_id :: "string option"
  tr_price :: num_field
  tr_size :: num_field
  taker_order_id :: "string option"
  maker_orders :: "MakerOrder list"

record OrderEvent =
  oe_id :: "string option"
  oe_type :: "string option"
  oe_size_matched :: num_field
  oe_price :: num_field

record UserChannelManager =
  uc_config :: Config
  tracked_order_ids :: "string set"
  has_on_fill :: bool

type_synonym fill = "string \<times> Outcome \<times> rat \<times> rat"

definition str_or_empty :: "string option \<Rightarrow> string" where
  "str_or_empty v = (case v of None \<Rightarrow> [] | Some x \<Rightarrow> x)"

definition uc_track_order :: "UserChannelManager \<Rightarrow> string \<Rightarrow> UserChannelManager" where
  "uc_track_order ucm oid = ucm\<lparr>tracked_order_ids := insert oid (tracked_order_ids ucm)\<rparr>"

definition uc_untrack_order :: "UserChannelManager \<Rightarrow> string \<Rightarrow> UserChannelManager" where
  "uc_untrack_order ucm oid = ucm\<lparr>tracked_order_ids := tracked_order_ids ucm - {oid}\<rparr>"

definition process_fill ::
  "UserChannelManager \<Rightarrow> string \<Rightarrow> string \<Rightarrow> rat \<Rightarrow> rat \<Rightarrow> UserChannelManager \<times> fill list" where
  "process_fill ucm oid asset price fill_size =
     (if asset = token_id_yes (uc_config ucm) \<or> asset = token_id_no (uc_config ucm) then
        (let outcome = (if asset = token_id_yes (uc_config ucm) then YES else NO)
         in (ucm\<lparr>tracked_order_ids := tracked_order_ids ucm - {oid}\<rparr>,
             if has_on_fill ucm then [(oid, outcome, price, fill_size)] else []))
      else (ucm, []))"

text \<open>
  The loop of \<open>_handle_trade\<close> over \<open>maker_orders\<close>. The result is the manager, the fills
  handed to the callback in order, and the exception that ended the loop, if any: the
  fills delivered before it stay delivered.
\<close>

fun handle_makers ::
  "UserChannelManager \<Rightarrow> string \<Rightarrow> rat \<Rightarrow> rat \<Rightarrow> MakerOrder list
     \<Rightarrow> UserChannelManager \<times> fill list \<times> py_error option" where
  "handle_makers ucm asset price fill_size [] = (ucm, [], None)"
| "handle_makers ucm asset price fill_size (maker # rest) =
     (let maker_order_id = str_or_empty (mo_order_id maker)
      in if maker_order_id \<in> tracked_order_ids ucm then
           (case py_float (mo_price maker) price of
              Inl err \<Rightarrow> (ucm, [], Some err)
            | Inr maker_price \<Rightarrow>
                (case py_float
                        (case mo_matched_amount maker of
                           Absent \<Rightarrow> (case mo_size maker of Absent \<Rightarrow> Num fill_size | v \<Rightarrow> v)
                         | v \<Rightarrow> v) 0 of
                   Inl err \<Rightarrow> (ucm, [], Some err)
                 | Inr maker_size \<Rightarrow>
                     (let maker_asset_id = (case mo_asset_id maker of None \<Rightarrow> asset | Some a \<Rightarrow> a);
                          (ucm1, fills1) =
                             process_fill ucm maker_order_id maker_asset_id maker_price maker_size;
                          (ucm2, fills2, err) = handle_makers ucm1 asset price fill_size rest
                      in (ucm2, fills1 @ fills2, err))))
         else handle_makers ucm asset price fill_size rest)"

definition handle_trade ::
  "UserChannelManager \<Rightarrow> TradeEvent \<Rightarrow> UserChannelManager \<times> fill list \<times> py_error option" where
  "handle_trade ucm data =
     (if str_or_empty (tr_status data) \<notin> {''MATCHED'', ''MINED'', ''CONFIRMED''}
      then (ucm, [], None)
      else
        (let asset = str_or_empty (tr_asset_id data)
         in case py_float (tr_price data) 0 of
              Inl err \<Rightarrow> (ucm, [], Some err)
            | Inr price \<Rightarrow>
                (case py_float (tr_size data) 0 of
                   Inl err \<Rightarrow> (ucm, [], Some err)
                 | Inr fill_size \<Rightarrow>
                     if price \<le> 0 \<or> fill_size \<le> 0 then (ucm, [], None)
                     else
                       (let taker = str_or_empty (taker_order_id data);
                            (ucm1, fills1) =
                               (if taker \<in> tracked_order_ids ucm
                                then process_fill ucm taker asset price fill_size
                                else (ucm, []));
                            (ucm2, fills2, err) =
                               handle_makers ucm1 asset price fill_size (maker_orders data)
                        in (ucm2, fills1 @ fills2, err)))))"

definition handle_order_update ::
  "UserChannelManager \<Rightarrow> OrderEvent \<Rightarrow> UserChannelManager \<times> py_error option" where
  "handle_order_update ucm data =
     (let oid = str_or_empty (oe_id data);
          update_type = str_or_empty (oe_type data)
      in if oid \<notin> tracked_order_ids ucm then (ucm, None)
         else if update_type = ''CANCELLATION''
         then (ucm\<lparr>tracked_order_ids := tracked_order_ids ucm - {oid}\<rparr>, None)
         else if update_type = ''PLACEMENT'' \<or> update_type = ''UPDATE'' then
           (case py_float (oe_size_matched data) 0 of
              Inl err \<Rightarrow> (ucm, Some err)
            | Inr size_matched \<Rightarrow>
                if size_matched > 0 then
                  (case py_float (oe_price data) 0 of
                     Inl err \<Rightarrow> (ucm, Some err)
                   | Inr price \<Rightarrow> (ucm, None))
                else (ucm, None))
         else (ucm, None))"

text \<open>
  What reaches the manager over time: the engine tracking or untracking an id, and the
  trade and order events of the socket. \<open>_on_message\<close> logs an exception of a handler
  and carries on with the next message.
\<close>

datatype channel_input =
    TrackOrder string
  | UntrackOrder string
  | Trade TradeEvent
  | OrderUpdate OrderEvent

fun channel_step :: "UserChannelManager \<Rightarrow> channel_input \<Rightarrow> UserChannelManager \<times> fill list" where
  "channel_step ucm (TrackOrder oid) = (uc_track_order ucm oid, [])"
| "channel_step ucm (UntrackOrder oid) = (uc_untrack_order ucm oid, [])"
| "channel_step ucm (Trade data) = (case handle_trade ucm data of (ucm1, fills, err) \<Rightarrow> (ucm1, fills))"
| "channel_step ucm (OrderUpdate data) = (fst (handle_order_update ucm data), [])"

fun channel_run :: "UserChannelManager \<Rightarrow> channel_input list \<Rightarrow> UserChannelManager \<times> fill list" where
  "channel_run ucm [] = (ucm, [])"
| "channel_run ucm (i # rest) =
     (case channel_step ucm i of
        (ucm1, fills1) \<Rightarrow>
          (case channel_run ucm1 rest of (ucm2, fills2) \<Rightarrow> (ucm2, fills1 @ fills2)))"

section \<open>Observations and concrete inputs\<close>

text \<open>The sizes of the limit orders among a list of requests, in order.\<close>

fun limit_sizes :: "request list \<Rightarrow> rat list" where
  "limit_sizes [] = []"
| "limit_sizes (PlaceLimit token side price sz tif # rs) = sz # limit_sizes rs"
| "limit_sizes (r # rs) = limit_sizes rs"

text \<open>Scenario 1 of the specification: the ledger after the YES trap fill and after the hedge fill.\<close>

definition scenario_after_trap :: InventoryState where
  "scenario_after_trap = record_fill (InventoryState_init 0) YES BUY (12/25) 10 1"

definition scenario_after_hedge :: InventoryState where
  "scenario_after_hedge =
     lock_profit (record_fill scenario_after_trap NO BUY (1/2) 10 2) (c_target default_config)"




text \<open>
  An engine in mode OPEN on the book of scenario 1 (YES 0.50 bid, 0.52 ask; NO 0.48 bid,
  0.50 ask) with a given ledger and no order in any slot; the same engine with both traps
  resting; an exchange that accepts every order under one id.
\<close>

definition book_of :: "string \<Rightarrow> rat \<Rightarrow> rat \<Rightarrow> OrderBook" where
  "book_of token bid ask =
     \<lparr>asset_id = token, bids = [\<lparr>lvl_price = bid, lvl_size = 100\<rparr>],
      asks = [\<lparr>lvl_price = ask, lvl_size = 100\<rparr>], timestamp = 0\<rparr>"

definition engine_with :: "InventoryState \<Rightarrow> StrategyEngine" where
  "engine_with ivs =
     \<lparr>config = default_config,
      state = \<lparr>mode = OPEN, inventory = ivs, trap_order_yes = None, trap_order_no = None,
               hedge_order = None,
               orderbook_yes = Some (book_of ''tok-yes'' (1/2) (13/25)),
               orderbook_no = Some (book_of ''tok-no'' (12/25) (1/2))\<rparr>,
      placing_traps = False, placing_hedge = False, order_outcome = Map.empty,
      accepted_imbalance = False, tracked = {}, sent = []\<rparr>"

definition trap_of :: "string \<Rightarrow> string \<Rightarrow> Outcome \<Rightarrow> rat \<Rightarrow> LiveOrder" where
  "trap_of oid token outcome price =
     \<lparr>order_id = oid, lo_asset_id = token, lo_outcome = outcome, lo_side = BUY,
      lo_price = price, lo_size = 10, filled_size = 0, status = LIVE\<rparr>"

definition quoting_engine :: StrategyEngine where
  "quoting_engine =
     (let e = engine_with (InventoryState_init 0)
      in e\<lparr>state := (state e)\<lparr>trap_order_yes := Some (trap_of ''trap-y'' ''tok-yes'' YES (12/25)),
                               trap_order_no := Some (trap_of ''trap-n'' ''tok-no'' NO (23/50))\<rparr>,
           order_outcome := [''trap-y'' \<mapsto> YES, ''trap-n'' \<mapsto> NO],
           tracked := {''trap-y'', ''trap-n''}\<rparr>)"

text \<open>An engine that is long 3 YES shares bought at 0.48, under the default configuration.\<close>

definition small_long_engine :: StrategyEngine where
  "small_long_engine = engine_with (record_fill (InventoryState_init 0) YES BUY (12/25) 3 1)"

definition accept_all :: exchange where
  "accept_all req = Some ''order-1''"

text \<open>
  A manager tracking one order, and a MATCHED trade that names that order both as the
  taker and as a maker.
\<close>

definition channel_tracking :: UserChannelManager where
  "channel_tracking =
     \<lparr>uc_config = default_config, tracked_order_ids = {''trap-y''}, has_on_fill = True\<rparr>"

definition trade_twice :: TradeEvent where
  "trade_twice =
     \<lparr>tr_status = Some ''MATCHED'', tr_asset_id = Some ''tok-yes'', tr_price = Num (12/25),
      tr_size = Num 10, taker_order_id = Some ''trap-y'',
      maker_orders = [\<lparr>mo_order_id = Some ''trap-y'', mo_price = Num (12/25),
                        mo_matched_amount = Num 10, mo_size = Absent,
                        mo_asset_id = Some ''tok-yes''\<rparr>]\<rparr>"

section \<open>Verification\<close>

subsection \<open>Scenario 1: a full box round\<close>

text \<open>
  C1. With margin 0.02 (\<open>c_target\<close> 0.98), range 0.40 to 0.60 and an empty ledger, the YES
  trap is priced at 0.48 and the NO trap at 0.46; after the YES fill of 10 at 0.48 the
  hedge price computed from the YES VWAP is 0.50; after the NO fill of 10 at 0.50 and
  \<open>lock_profit\<close>, the locked profit is 10 * (1 - 0.98) = 0.20 and one round is complete.
\<close>

theorem scenario_full_box_round:
  "profit_margin default_config = 1/50 \<and> c_target default_config = 49/50
   \<and> range_min default_config = 2/5 \<and> range_max default_config = 3/5
   \<and> trap_order_size default_config = 10
   \<and> compute_trap_price default_config (1/2) (13/25) = Some (12/25)
   \<and> compute_trap_price default_config (13/25) (1/2) = Some (23/50)
   \<and> mu_yes scenario_after_trap = 12/25
   \<and> compute_hedge_price default_config (12/25) = 1/2
   \<and> compute_hedge_price default_config (mu_yes scenario_after_trap) = 1/2
   \<and> q_yes scenario_after_hedge = 10 \<and> q_no scenario_after_hedge = 10
   \<and> locked_quantity scenario_after_hedge = 10
   \<and> locked_profit scenario_after_hedge = 10 * (1 - 49/50)
   \<and> locked_profit scenario_after_hedge = 1/5
   \<and> completed_rounds scenario_after_hedge = 1"
  by (simp add: default_config_def compute_trap_price_def compute_hedge_price_def
      py_round2_def scenario_after_trap_def scenario_after_hedge_def record_fill_def
      lock_profit_def InventoryState_init_def mu_yes_def mu_no_def combined_vwap_def Let_def)

subsection \<open>Rounding to the tick\<close>

lemma floor_rat_numeral_div [simp]:
  "\<lfloor>numeral a / numeral b :: rat\<rfloor> = numeral a div numeral b"
  by (metis floor_divide_of_int_eq of_int_numeral)








subsection \<open>Trap price\<close>




subsection \<open>Locking profit\<close>

text \<open>
  C4. A second \<open>lock_profit\<close> with the same target changes no field, and neither
  \<open>lock_profit\<close> nor \<open>record_fill\<close> decreases \<open>locked_profit\<close> or \<open>completed_rounds\<close>.
\<close>

theorem lock_profit_idempotent_monotonic:
  "lock_profit (lock_profit ivs c) c = lock_profit ivs c
   \<and> locked_profit ivs \<le> locked_profit (lock_profit ivs c)
   \<and> completed_rounds ivs \<le> completed_rounds (lock_profit ivs c)
   \<and> locked_profit ivs \<le> locked_profit (record_fill ivs outcome side price fill_size now)
   \<and> completed_rounds ivs \<le> completed_rounds (record_fill ivs outcome side price fill_size now)"
proof -
  have idem: "lock_profit (lock_profit ivs c) c = lock_profit ivs c"
    by (simp add: lock_profit_def Let_def)
  have lp: "locked_profit ivs \<le> locked_profit (lock_profit ivs c)"
    by (auto simp: lock_profit_def Let_def intro!: mult_nonneg_nonneg)
  have cr: "completed_rounds ivs \<le> completed_rounds (lock_profit ivs c)"
    by (simp add: lock_profit_def Let_def)
  have rf: "locked_profit (record_fill ivs outcome side price fill_size now) = locked_profit ivs"
    "completed_rounds (record_fill ivs outcome side price fill_size now) = completed_rounds ivs"
    by (simp_all add: record_fill_def Let_def)
  show ?thesis using idem lp cr rf by simp
qed

subsection \<open>Ledger invariant\<close>












subsection \<open>Order book accessors\<close>

lemma scan_max: "fold (\<lambda>y m. if y > m then y else m) xs (x::rat) = Max (insert x (set xs))"
proof -
  have "(\<lambda>y m::rat. if y > m then y else m) = max"
    by (auto simp: fun_eq_iff max_def)
  then show ?thesis using Max.set_eq_fold[of x xs] by simp
qed

lemma scan_min: "fold (\<lambda>y m. if y < m then y else m) xs (x::rat) = Min (insert x (set xs))"
proof -
  have "(\<lambda>y m::rat. if y < m then y else m) = min"
    by (auto simp: fun_eq_iff min_def)
  then show ?thesis using Min.set_eq_fold[of x xs] by simp
qed

lemma best_bid_value:
  "best_bid ob = Inr (if bids ob = [] then None else Some (Max (lvl_price ` set (bids ob))))"
  by (cases "bids ob") (simp_all add: best_bid_def scan_max)

lemma best_ask_value:
  "best_ask ob = Inr (if asks ob = [] then None else Some (Min (lvl_price ` set (asks ob))))"
  by (cases "asks ob") (simp_all add: best_ask_def scan_min)

text \<open>
  C10. For every order book, \<open>best_bid\<close> is \<open>None\<close> exactly when \<open>bids\<close> is empty and
  otherwise the largest bid price, \<open>best_ask\<close> is \<open>None\<close> exactly when \<open>asks\<close> is empty
  and otherwise the smallest ask price, and \<open>mid_price\<close> and \<open>spread\<close> are \<open>None\<close> as soon
  as one side is empty. Each accessor returns a value (\<open>Inr\<close>) on every book: the
  \<open>ValueError\<close> of \<open>max\<close> and \<open>min\<close> on an empty sequence is never reached.
\<close>

theorem orderbook_accessors_total:
  "best_bid ob = Inr (if bids ob = [] then None else Some (Max (lvl_price ` set (bids ob))))
   \<and> best_ask ob = Inr (if asks ob = [] then None else Some (Min (lvl_price ` set (asks ob))))
   \<and> mid_price ob =
        Inr (if bids ob = [] \<or> asks ob = [] then None
             else Some ((Max (lvl_price ` set (bids ob)) + Min (lvl_price ` set (asks ob))) / 2))
   \<and> spread ob =
        Inr (if bids ob = [] \<or> asks ob = [] then None
             else Some (Min (lvl_price ` set (asks ob)) - Max (lvl_price ` set (bids ob))))"
  by (simp add: mid_price_def spread_def best_bid_value best_ask_value)

subsection \<open>Persistence round trip\<close>

lemma from_dict_to_dict:
  "from_dict (to_dict ivs) now = Inr (ivs\<lparr>completed_rounds := 0\<rparr>)"
  by (simp add: from_dict_def to_dict_def bind_err_def get_float_def get_int_def get_datetime_def)

text \<open>
  C5 does not hold of the code: \<open>to_dict\<close> writes no \<open>completed_rounds\<close> and \<open>from_dict\<close>
  reads none, so the round trip returns every other field and resets the counter to 0.
  The ledger at the end of scenario 1 has one completed round and comes back with none.
\<close>

theorem round_trip_resets_completed_rounds:
  "completed_rounds scenario_after_hedge = 1
   \<and> from_dict (to_dict scenario_after_hedge) 3 = Inr (scenario_after_hedge\<lparr>completed_rounds := 0\<rparr>)
   \<and> from_dict (to_dict scenario_after_hedge) 3 \<noteq> Inr scenario_after_hedge"
proof -
  have c: "completed_rounds scenario_after_hedge = 1"
    by (simp add: default_config_def scenario_after_trap_def scenario_after_hedge_def record_fill_def
      lock_profit_def InventoryState_init_def mu_yes_def mu_no_def combined_vwap_def Let_def)
  have "scenario_after_hedge\<lparr>completed_rounds := 0\<rparr> \<noteq> scenario_after_hedge"
  proof
    assume "scenario_after_hedge\<lparr>completed_rounds := 0\<rparr> = scenario_after_hedge"
    then have "completed_rounds (scenario_after_hedge\<lparr>completed_rounds := 0\<rparr>) = completed_rounds scenario_after_hedge"
      by simp
    with c show False by simp
  qed
  with c show ?thesis by (simp add: from_dict_to_dict)
qed

subsection \<open>Fills of unknown orders\<close>

text \<open>
  C6. A fill whose order id is in none of the three order slots returns the engine as it
  was: no \<open>record_fill\<close> (the trade counter is among the unchanged fields), no change to
  the ledger and none to a slot.
\<close>

theorem on_fill_unknown_discarded:
  assumes "\<not> slot_has_id (trap_order_yes (state e)) oid"
    and "\<not> slot_has_id (trap_order_no (state e)) oid"
    and "\<not> slot_has_id (hedge_order (state e)) oid"
  shows "on_fill e oid outcome price fill_size now = e"
  using assms by (simp add: on_fill_def Let_def)

theorem on_fill_unknown_discarded_witness:
  "\<not> slot_has_id (trap_order_yes (state quoting_engine)) ''stale''
   \<and> \<not> slot_has_id (trap_order_no (state quoting_engine)) ''stale''
   \<and> \<not> slot_has_id (hedge_order (state quoting_engine)) ''stale''
   \<and> on_fill quoting_engine ''stale'' YES (12/25) 10 5 = quoting_engine"
proof -
  have a: "\<not> slot_has_id (trap_order_yes (state quoting_engine)) ''stale''"
    and b: "\<not> slot_has_id (trap_order_no (state quoting_engine)) ''stale''"
    and c: "\<not> slot_has_id (hedge_order (state quoting_engine)) ''stale''"
    by (simp_all add: quoting_engine_def engine_with_def trap_of_def slot_has_id_def Let_def)
  from on_fill_unknown_discarded[OF a b c] a b c show ?thesis by simp
qed

text \<open>The same engine does record a fill of the order in its YES trap slot.\<close>

lemma on_fill_known_records:
  "total_trades (inventory (state (on_fill quoting_engine ''trap-y'' YES (12/25) 10 5))) = 1
   \<and> q_yes (inventory (state (on_fill quoting_engine ''trap-y'' YES (12/25) 10 5))) = 10
   \<and> trap_order_yes (state (on_fill quoting_engine ''trap-y'' YES (12/25) 10 5)) = None"
  by (simp add: on_fill_def quoting_engine_def engine_with_def trap_of_def slot_has_id_def Let_def
      record_fill_def forget_order_def InventoryState_init_def)

subsection \<open>Hedge size\<close>

lemma limit_sizes_append: "limit_sizes (xs @ ys) = limit_sizes xs @ limit_sizes ys"
  by (induction xs rule: limit_sizes.induct) simp_all

lemma untrack_order_fields:
  "sent (untrack_order e oid) = sent e" "state (untrack_order e oid) = state e"
  "config (untrack_order e oid) = config e" "placing_hedge (untrack_order e oid) = placing_hedge e"
  by (simp_all add: untrack_order_def forget_order_def)

lemma cancel_trap_fields:
  "limit_sizes (sent (cancel_trap e slot)) = limit_sizes (sent e)"
  "state (cancel_trap e slot) = state e"
  "config (cancel_trap e slot) = config e"
  by (simp_all add: cancel_trap_def untrack_order_fields limit_sizes_append split: option.splits)

lemma cancel_hedge_fields:
  "limit_sizes (sent (cancel_hedge e)) = limit_sizes (sent e)"
  "inventory (state (cancel_hedge e)) = inventory (state e)"
  "config (cancel_hedge e) = config e"
  by (simp_all add: cancel_hedge_def untrack_order_fields limit_sizes_append split: option.splits)

lemma switch_mode_fields:
  "sent (switch_mode e m) = sent e" "config (switch_mode e m) = config e"
  "inventory (state (switch_mode e m)) = inventory (state e)"
  "hedge_order (state (switch_mode e m)) = hedge_order (state e)"
  "trap_order_yes (state (switch_mode e m)) = trap_order_yes (state e)"
  "trap_order_no (state (switch_mode e m)) = trap_order_no (state e)"
  "orderbook_yes (state (switch_mode e m)) = orderbook_yes (state e)"
  "orderbook_no (state (switch_mode e m)) = orderbook_no (state e)"
  by (simp_all add: switch_mode_def)

lemma place_order_tail:
  fixes e0 :: StrategyEngine and exch :: exchange and token :: string and p sz :: rat
    and outcome :: Outcome
  defines "after \<equiv>
     (let (req, order_opt) = place_limit_order (config e0) exch token BUY p sz ''GTC'';
          e1 = e0\<lparr>sent := sent e0 @ [req]\<rparr>
      in case order_opt of
           None \<Rightarrow> e1
         | Some order \<Rightarrow>
             (let e2 = remember_order e1 (order_id order) outcome;
                  e3 = e2\<lparr>state := (state e2)\<lparr>hedge_order := Some order\<rparr>\<rparr>
              in track_order e3 (order_id order)))"
  shows "limit_sizes (sent after) = limit_sizes (sent e0) @ [sz]"
    and "inventory (state after) = inventory (state e0)"
  unfolding after_def
  by (cases "exch (PlaceLimit token BUY (py_round2 p) sz ''GTC'')";
      simp add: place_limit_order_def remember_order_def track_order_def Let_def limit_sizes_append)+

lemma place_hedge_idle:
  assumes "\<not> (case hedge_order (state e) of None \<Rightarrow> False | Some h \<Rightarrow> is_active h)"
  shows "limit_sizes (sent (place_hedge exch e outcome price sz)) = limit_sizes (sent e) @ [sz]"
proof (cases "hedge_order (state e)")
  case None
  then show ?thesis unfolding place_hedge_def Let_def
    by (simp add: place_order_tail(1)[unfolded Let_def])
next
  case (Some h)
  with assms have "\<not> is_active h" by simp
  with Some show ?thesis unfolding place_hedge_def Let_def
    by (simp add: place_order_tail(1)[unfolded Let_def])
qed

lemma place_hedge_inventory:
  "inventory (state (place_hedge exch e outcome price sz)) = inventory (state e)"
proof (cases "hedge_order (state e)")
  case None
  then show ?thesis unfolding place_hedge_def Let_def
    by (simp add: place_order_tail(2)[unfolded Let_def])
next
  case (Some h)
  then show ?thesis unfolding place_hedge_def Let_def
    by (simp add: place_order_tail(2)[unfolded Let_def] cancel_hedge_fields)
qed

text \<open>
  The shape of \<open>mode_hedge\<close>: behind the two guards it runs on an engine \<open>e4\<close> that
  differs from the one it was given only in the mode, the trap slots, the tracking
  tables and the cancellations sent.
\<close>

lemma mode_hedge_shape:
  "\<exists>e4. inventory (state e4) = inventory (state e)
        \<and> limit_sizes (sent e4) = limit_sizes (sent e)
        \<and> hedge_order (state e4) = hedge_order (state e)
        \<and> orderbook_yes (state e4) = orderbook_yes (state e)
        \<and> orderbook_no (state e4) = orderbook_no (state e)
        \<and> mode_hedge exch e long_side =
            (if (case hedge_order (state e) of None \<Rightarrow> False | Some h \<Rightarrow> is_active h)
                \<or> placing_hedge e then e
             else if orderbook_yes (state e) = None \<or> orderbook_no (state e) = None
             then e4\<lparr>placing_hedge := False\<rparr>
             else (if long_side = YES
                   then place_hedge exch e4 NO
                          (compute_hedge_price (config e4) (mu_yes (inventory (state e))))
                          (max \<bar>delta_q (inventory (state e))\<bar> 5)
                   else place_hedge exch e4 YES
                          (compute_hedge_price (config e4) (mu_no (inventory (state e))))
                          (max \<bar>delta_q (inventory (state e))\<bar> 5))
                  \<lparr>placing_hedge := False\<rparr>)"
proof -
  define e1 where "e1 = e\<lparr>placing_hedge := True\<rparr>"
  define new_mode where "new_mode = (if long_side = YES then HEDGE_YES else HEDGE_NO)"
  define e2 where "e2 = (if mode (state e1) \<noteq> new_mode then switch_mode e1 new_mode else e1)"
  define e3 where "e3 = (case trap_order_yes (state e2) of
                     None \<Rightarrow> e2
                   | Some trap \<Rightarrow>
                       cancel_trap (e2\<lparr>state := (state e2)\<lparr>trap_order_yes := None\<rparr>\<rparr>) (Some trap))"
  define e4 where "e4 = (case trap_order_no (state e3) of
                     None \<Rightarrow> e3
                   | Some trap \<Rightarrow>
                       cancel_trap (e3\<lparr>state := (state e3)\<lparr>trap_order_no := None\<rparr>\<rparr>) (Some trap))"
  have s2: "limit_sizes (sent e2) = limit_sizes (sent e)" "hedge_order (state e2) = hedge_order (state e)"
    "orderbook_yes (state e2) = orderbook_yes (state e)" "orderbook_no (state e2) = orderbook_no (state e)"
    "inventory (state e2) = inventory (state e)"
    by (simp_all add: e2_def e1_def switch_mode_fields)
  have s3: "limit_sizes (sent e3) = limit_sizes (sent e)" "hedge_order (state e3) = hedge_order (state e)"
    "orderbook_yes (state e3) = orderbook_yes (state e)" "orderbook_no (state e3) = orderbook_no (state e)"
    "inventory (state e3) = inventory (state e)"
    using s2 by (simp_all add: e3_def cancel_trap_fields split: option.splits)
  have s4: "limit_sizes (sent e4) = limit_sizes (sent e)" "hedge_order (state e4) = hedge_order (state e)"
    "orderbook_yes (state e4) = orderbook_yes (state e)" "orderbook_no (state e4) = orderbook_no (state e)"
    "inventory (state e4) = inventory (state e)"
    using s3 by (simp_all add: e4_def cancel_trap_fields split: option.splits)
  have q: "(if \<bar>delta_q (inventory (state e))\<bar> < 5 then 5 else \<bar>delta_q (inventory (state e))\<bar>)
           = max \<bar>delta_q (inventory (state e))\<bar> 5"
    by (simp add: max_def)
  have busy: "mode_hedge exch e long_side = e"
    if "(case hedge_order (state e) of None \<Rightarrow> False | Some h \<Rightarrow> is_active h) \<or> placing_hedge e"
    using that by (auto simp: mode_hedge_def)
  have raw: "mode_hedge exch e long_side =
            (if orderbook_yes (state e4) = None \<or> orderbook_no (state e4) = None
             then e4\<lparr>placing_hedge := False\<rparr>
             else (if long_side = YES
                   then place_hedge exch e4 NO
                          (compute_hedge_price (config e4) (mu_yes (inventory (state e1))))
                          (if \<bar>delta_q (inventory (state e1))\<bar> < 5 then 5
                           else \<bar>delta_q (inventory (state e1))\<bar>)
                   else place_hedge exch e4 YES
                          (compute_hedge_price (config e4) (mu_no (inventory (state e1))))
                          (if \<bar>delta_q (inventory (state e1))\<bar> < 5 then 5
                           else \<bar>delta_q (inventory (state e1))\<bar>))
                  \<lparr>placing_hedge := False\<rparr>)"
    if "\<not> ((case hedge_order (state e) of None \<Rightarrow> False | Some h \<Rightarrow> is_active h) \<or> placing_hedge e)"
  proof -
    from that have g: "(case hedge_order (state e) of None \<Rightarrow> False | Some h \<Rightarrow> is_active h) = False"
      "placing_hedge e = False" by auto
    show ?thesis
      unfolding mode_hedge_def g if_False Let_def e4_def e3_def e2_def new_mode_def e1_def ..
  qed
  have i1: "inventory (state e1) = inventory (state e)" by (simp add: e1_def)
  have idle: "mode_hedge exch e long_side =
            (if orderbook_yes (state e4) = None \<or> orderbook_no (state e4) = None
             then e4\<lparr>placing_hedge := False\<rparr>
             else (if long_side = YES
                   then place_hedge exch e4 NO
                          (compute_hedge_price (config e4) (mu_yes (inventory (state e))))
                          (max \<bar>delta_q (inventory (state e))\<bar> 5)
                   else place_hedge exch e4 YES
                          (compute_hedge_price (config e4) (mu_no (inventory (state e))))
                          (max \<bar>delta_q (inventory (state e))\<bar> 5))
                  \<lparr>placing_hedge := False\<rparr>)"
    if "\<not> ((case hedge_order (state e) of None \<Rightarrow> False | Some h \<Rightarrow> is_active h) \<or> placing_hedge e)"
    using raw[OF that] unfolding i1 q .
  have "mode_hedge exch e long_side =
            (if (case hedge_order (state e) of None \<Rightarrow> False | Some h \<Rightarrow> is_active h)
                \<or> placing_hedge e then e
             else if orderbook_yes (state e) = None \<or> orderbook_no (state e) = None
             then e4\<lparr>placing_hedge := False\<rparr>
             else (if long_side = YES
                   then place_hedge exch e4 NO
                          (compute_hedge_price (config e4) (mu_yes (inventory (state e))))
                          (max \<bar>delta_q (inventory (state e))\<bar> 5)
                   else place_hedge exch e4 YES
                          (compute_hedge_price (config e4) (mu_no (inventory (state e))))
                          (max \<bar>delta_q (inventory (state e))\<bar> 5))
                  \<lparr>placing_hedge := False\<rparr>)"
  proof (cases "(case hedge_order (state e) of None \<Rightarrow> False | Some h \<Rightarrow> is_active h) \<or> placing_hedge e")
    case True
    then show ?thesis using busy by simp
  next
    case False
    show ?thesis using False idle[OF False] unfolding s4(3,4) by simp
  qed
  with s4 show ?thesis by blast
qed

text \<open>
  C7, as amended. Whenever \<open>mode_hedge\<close> gets past its guards (no active hedge, no
  placement in progress, both books present) it posts exactly one limit order, of size
  \<open>max(|\<Delta>Q|, 5)\<close>, and otherwise none: 5 is the constant \<open>MIN_POLYMARKET_SIZE\<close> of
  the source, and the configured \<open>min_order_size\<close> is not read.
\<close>

theorem hedge_order_size:
  "limit_sizes (sent (mode_hedge exch e long_side)) =
     limit_sizes (sent e) @
       (if (case hedge_order (state e) of None \<Rightarrow> False | Some h \<Rightarrow> is_active h)
           \<or> placing_hedge e
           \<or> orderbook_yes (state e) = None \<or> orderbook_no (state e) = None
        then []
        else [max \<bar>delta_q (inventory (state e))\<bar> 5])"
proof -
  from mode_hedge_shape[of e exch long_side] obtain e4 where
    l: "limit_sizes (sent e4) = limit_sizes (sent e)" and
    h: "hedge_order (state e4) = hedge_order (state e)" and
    m: "mode_hedge exch e long_side =
            (if (case hedge_order (state e) of None \<Rightarrow> False | Some h \<Rightarrow> is_active h)
                \<or> placing_hedge e then e
             else if orderbook_yes (state e) = None \<or> orderbook_no (state e) = None
             then e4\<lparr>placing_hedge := False\<rparr>
             else (if long_side = YES
                   then place_hedge exch e4 NO
                          (compute_hedge_price (config e4) (mu_yes (inventory (state e))))
                          (max \<bar>delta_q (inventory (state e))\<bar> 5)
                   else place_hedge exch e4 YES
                          (compute_hedge_price (config e4) (mu_no (inventory (state e))))
                          (max \<bar>delta_q (inventory (state e))\<bar> 5))
                  \<lparr>placing_hedge := False\<rparr>)"
    by blast
  show ?thesis
  proof (cases "(case hedge_order (state e) of None \<Rightarrow> False | Some h \<Rightarrow> is_active h)")
    case True
    then show ?thesis unfolding m by simp
  next
    case False
    then have idle: "\<not> (case hedge_order (state e4) of None \<Rightarrow> False | Some h \<Rightarrow> is_active h)"
      using h by simp
    show ?thesis unfolding m using False l place_hedge_idle(1)[OF idle] by simp
  qed
qed

lemma sle_a:
  "min_order_size (config small_long_engine) = 1"
  "hedge_order (state small_long_engine) = None"
  "trap_order_yes (state small_long_engine) = None"
  "trap_order_no (state small_long_engine) = None"
  "placing_hedge small_long_engine = False"
  "sent small_long_engine = []"
  "config small_long_engine = default_config"
  by (simp_all add: small_long_engine_def engine_with_def default_config_def)

lemma sle_b:
  "delta_q (inventory (state small_long_engine)) = 3"
  "mu_yes (inventory (state small_long_engine)) = 12/25"
  by (simp_all add: small_long_engine_def engine_with_def delta_q_def mu_yes_def record_fill_def
      InventoryState_init_def Let_def)


lemma sle_c:
  "orderbook_yes (state small_long_engine) = Some (book_of ''tok-yes'' (1/2) (13/25))"
  "orderbook_no (state small_long_engine) = Some (book_of ''tok-no'' (12/25) (1/2))"
  "min_order_size default_config = 1"
  "token_id_no default_config = ''tok-no''"
  "compute_hedge_price default_config (12/25) = 1/2"
  "py_round2 (max (1/100) (min (99/100) (1/2))) = 1/2"
  "py_round2 (1/2) = 1/2"
  by (simp_all add: small_long_engine_def engine_with_def default_config_def
      compute_hedge_price_def py_round2_def Let_def)

lemma mode_hedge_long_yes_no_orders:
  assumes "hedge_order (state e) = None" "trap_order_yes (state e) = None"
    "trap_order_no (state e) = None" "\<not> placing_hedge e"
    "orderbook_yes (state e) = Some yes_book" "orderbook_no (state e) = Some no_book"
  shows "sent (mode_hedge exch e YES) =
           sent e @ [PlaceLimit (token_id_no (config e)) BUY
                       (py_round2 (py_round2 (max (1/100) (min (99/100)
                          (compute_hedge_price (config e) (mu_yes (inventory (state e))))))))
                       (if \<bar>delta_q (inventory (state e))\<bar> < 5 then 5
                        else \<bar>delta_q (inventory (state e))\<bar>) ''GTC'']"
proof -
  have a: "mode_hedge exch e YES =
      (place_hedge exch (switch_mode (e\<lparr>placing_hedge := True\<rparr>) HEDGE_YES) NO
         (compute_hedge_price (config e) (mu_yes (inventory (state e))))
         (if \<bar>delta_q (inventory (state e))\<bar> < 5 then 5 else \<bar>delta_q (inventory (state e))\<bar>))
        \<lparr>placing_hedge := False\<rparr>"
  proof -
    have sm: "(if mode (state x) \<noteq> m then switch_mode x m else x) = switch_mode x m" for x m
      by (simp add: switch_mode_def)
    show ?thesis using assms by (simp add: mode_hedge_def Let_def sm switch_mode_fields)
  qed
  have b: "hedge_order (state (switch_mode (e\<lparr>placing_hedge := True\<rparr>) HEDGE_YES)) = None"
    "sent (switch_mode (e\<lparr>placing_hedge := True\<rparr>) HEDGE_YES) = sent e"
    "config (switch_mode (e\<lparr>placing_hedge := True\<rparr>) HEDGE_YES) = config e"
    using assms by (simp_all add: switch_mode_def)
  have c: "sent (place_hedge exch e' NO p q) =
             sent e' @ [PlaceLimit (token_id_no (config e')) BUY
                          (py_round2 (py_round2 (max (1/100) (min (99/100) p)))) q ''GTC'']"
    if "hedge_order (state e') = None" for e' p q
    using that
    by (cases "exch (PlaceLimit (token_id_no (config e')) BUY
                          (py_round2 (py_round2 (max (1/100) (min (99/100) p)))) q ''GTC'')")
       (simp_all add: place_hedge_def place_limit_order_def remember_order_def track_order_def Let_def)
  show ?thesis unfolding a using c[OF b(1)] by (simp add: b)
qed

text \<open>
  C7 as stated fails: under the default configuration (\<open>min_order_size\<close> 1) an engine that
  is long 3 YES shares posts a hedge of size 5, not \<open>max(3, 1) = 3\<close>.
\<close>

theorem hedge_size_ignores_configured_minimum:
  "min_order_size (config small_long_engine) = 1
   \<and> \<bar>delta_q (inventory (state small_long_engine))\<bar> = 3
   \<and> sent (mode_hedge accept_all small_long_engine YES) = [PlaceLimit ''tok-no'' BUY (1/2) 5 ''GTC'']
   \<and> limit_sizes (sent (mode_hedge accept_all small_long_engine YES))
       \<noteq> [max \<bar>delta_q (inventory (state small_long_engine))\<bar>
               (min_order_size (config small_long_engine))]"
proof -
  have "sent (mode_hedge accept_all small_long_engine YES) = [PlaceLimit ''tok-no'' BUY (1/2) 5 ''GTC'']"
    using mode_hedge_long_yes_no_orders[of small_long_engine _ _ accept_all]
    by (simp add: sle_a sle_b sle_c)
  then show ?thesis by (simp add: sle_a sle_b sle_c)
qed

subsection \<open>Frame of the ledger\<close>

text \<open>Hedging leaves the ledger as it was.\<close>

lemma mode_hedge_inventory:
  "inventory (state (mode_hedge exch e long_side)) = inventory (state e)"
proof -
  from mode_hedge_shape[of e exch long_side] obtain e4 where
    i: "inventory (state e4) = inventory (state e)" and
    m: "mode_hedge exch e long_side =
            (if (case hedge_order (state e) of None \<Rightarrow> False | Some h \<Rightarrow> is_active h)
                \<or> placing_hedge e then e
             else if orderbook_yes (state e) = None \<or> orderbook_no (state e) = None
             then e4\<lparr>placing_hedge := False\<rparr>
             else (if long_side = YES
                   then place_hedge exch e4 NO
                          (compute_hedge_price (config e4) (mu_yes (inventory (state e))))
                          (max \<bar>delta_q (inventory (state e))\<bar> 5)
                   else place_hedge exch e4 YES
                          (compute_hedge_price (config e4) (mu_no (inventory (state e))))
                          (max \<bar>delta_q (inventory (state e))\<bar> 5))
                  \<lparr>placing_hedge := False\<rparr>)"
    by blast
  show ?thesis unfolding m by (simp add: i place_hedge_inventory)
qed

text \<open>
  C8 does not hold of the code: \<open>flatten_position\<close> writes \<open>q_yes\<close> itself. On an engine
  long 10 YES shares whose sell order is accepted, the quantity drops to 0 while the
  cost basis stays at 4.80 and the trade counter does not move, so no \<open>record_fill\<close>
  took place.
\<close>

theorem flatten_position_writes_ledger:
  "q_yes (inventory (state (engine_with scenario_after_trap))) = 10
   \<and> q_yes (inventory (state (flatten_position accept_all (engine_with scenario_after_trap)))) = 0
   \<and> c_yes (inventory (state (flatten_position accept_all (engine_with scenario_after_trap)))) = 24/5
   \<and> total_trades (inventory (state (flatten_position accept_all (engine_with scenario_after_trap))))
       = total_trades (inventory (state (engine_with scenario_after_trap)))
   \<and> sent (flatten_position accept_all (engine_with scenario_after_trap))
       = [PlaceMarket ''tok-yes'' SELL (12/25) 10]"
  by (simp add: flatten_position_def engine_with_def scenario_after_trap_def record_fill_def
      InventoryState_init_def delta_q_def bid_or_default_def best_bid_def book_of_def
      place_market_order_def accept_all_def default_config_def py_round2_def Let_def)

subsection \<open>At most one fill per order id\<close>

lemma process_fill_props:
  assumes "process_fill ucm oid asset price fill_size = (ucm1, fs)"
  shows "tracked_order_ids ucm1 \<subseteq> tracked_order_ids ucm"
    and "uc_config ucm1 = uc_config ucm" and "has_on_fill ucm1 = has_on_fill ucm"
    and "fs = [] \<or> (map fst fs = [oid] \<and> oid \<notin> tracked_order_ids ucm1)"
  using assms by (auto simp: process_fill_def Let_def split: if_splits)

lemma handle_makers_props:
  assumes "handle_makers ucm asset price fill_size makers = (ucm', fs, err)"
  shows "tracked_order_ids ucm' \<subseteq> tracked_order_ids ucm
         \<and> (\<forall>x \<in> set (map fst fs). x \<in> tracked_order_ids ucm \<and> x \<notin> tracked_order_ids ucm')
         \<and> distinct (map fst fs)"
  using assms
proof (induction makers arbitrary: ucm ucm' fs err)
  case Nil
  then show ?case by simp
next
  case (Cons maker rest)
  define mid where "mid = str_or_empty (mo_order_id maker)"
  show ?case
  proof (cases "mid \<in> tracked_order_ids ucm")
    case False
    with Cons.prems have "handle_makers ucm asset price fill_size rest = (ucm', fs, err)"
      by (simp add: mid_def Let_def)
    from Cons.IH[OF this] show ?thesis .
  next
    case True
    show ?thesis
    proof (cases "py_float (mo_price maker) price")
      case (Inl e)
      with True Cons.prems show ?thesis by (simp add: mid_def Let_def)
    next
      case p: (Inr maker_price)
      show ?thesis
      proof (cases "py_float (case mo_matched_amount maker of
                           Absent \<Rightarrow> (case mo_size maker of Absent \<Rightarrow> Num fill_size | v \<Rightarrow> v)
                         | v \<Rightarrow> v) 0")
        case (Inl e)
        with True p Cons.prems show ?thesis by (simp add: mid_def Let_def)
      next
        case sz: (Inr maker_size)
        obtain ucm1 fills1 where pf: "process_fill ucm mid
            (case mo_asset_id maker of None \<Rightarrow> asset | Some a \<Rightarrow> a) maker_price maker_size = (ucm1, fills1)"
          by (cases "process_fill ucm mid
            (case mo_asset_id maker of None \<Rightarrow> asset | Some a \<Rightarrow> a) maker_price maker_size") auto
        obtain ucm2 fills2 err2 where hm: "handle_makers ucm1 asset price fill_size rest = (ucm2, fills2, err2)"
          by (cases "handle_makers ucm1 asset price fill_size rest") auto
        from True p sz pf hm Cons.prems have res: "ucm' = ucm2" "fs = fills1 @ fills2"
          by (simp_all add: mid_def Let_def)
        note ih = Cons.IH[OF hm]
        note pp = process_fill_props[OF pf]
        from pp(4) show ?thesis
        proof
          assume "fills1 = []"
          with ih pp(1) res show ?thesis by auto
        next
          assume a: "map fst fills1 = [mid] \<and> mid \<notin> tracked_order_ids ucm1"
          with ih have "mid \<notin> set (map fst fills2)" by blast
          with a ih pp(1) res True show ?thesis by auto
        qed
      qed
    qed
  qed
qed

lemma handle_trade_props:
  assumes "handle_trade ucm data = (ucm', fs, err)"
  shows "tracked_order_ids ucm' \<subseteq> tracked_order_ids ucm
         \<and> (\<forall>x \<in> set (map fst fs). x \<in> tracked_order_ids ucm \<and> x \<notin> tracked_order_ids ucm')
         \<and> distinct (map fst fs)"
proof (cases "str_or_empty (tr_status data) \<notin> {''MATCHED'', ''MINED'', ''CONFIRMED''}")
  case True
  with assms show ?thesis by (simp add: handle_trade_def)
next
  case st: False
  show ?thesis
  proof (cases "py_float (tr_price data) 0")
    case (Inl e)
    with st assms show ?thesis by (simp add: handle_trade_def Let_def)
  next
    case p: (Inr price)
    show ?thesis
    proof (cases "py_float (tr_size data) 0")
      case (Inl e)
      with st p assms show ?thesis by (simp add: handle_trade_def Let_def)
    next
      case sz: (Inr fill_size)
      show ?thesis
      proof (cases "price \<le> 0 \<or> fill_size \<le> 0")
        case True
        with st p sz assms show ?thesis by (auto simp: handle_trade_def Let_def)
      next
        case pos: False
        let ?taker = "str_or_empty (taker_order_id data)"
        obtain ucm1 fills1 where tk: "(if ?taker \<in> tracked_order_ids ucm
                                then process_fill ucm ?taker (str_or_empty (tr_asset_id data)) price fill_size
                                else (ucm, [])) = (ucm1, fills1)"
          by (cases "(if ?taker \<in> tracked_order_ids ucm
                                then process_fill ucm ?taker (str_or_empty (tr_asset_id data)) price fill_size
                                else (ucm, []))") auto
        obtain ucm2 fills2 err2 where hm:
          "handle_makers ucm1 (str_or_empty (tr_asset_id data)) price fill_size (maker_orders data) = (ucm2, fills2, err2)"
          by (cases "handle_makers ucm1 (str_or_empty (tr_asset_id data)) price fill_size (maker_orders data)") auto
        from st p sz pos tk hm assms have res: "ucm' = ucm2" "fs = fills1 @ fills2"
          by (simp_all add: handle_trade_def Let_def )
        note mk = handle_makers_props[OF hm]
        have t1: "tracked_order_ids ucm1 \<subseteq> tracked_order_ids ucm"
          and t2: "fills1 = [] \<or> (map fst fills1 = [?taker] \<and> ?taker \<in> tracked_order_ids ucm
                     \<and> ?taker \<notin> tracked_order_ids ucm1)"
          using tk process_fill_props(1,4)[of ucm ?taker "str_or_empty (tr_asset_id data)" price fill_size ucm1 fills1]
          by (auto split: if_splits)
        from t2 show ?thesis
        proof
          assume "fills1 = []"
          with mk t1 res show ?thesis by auto
        next
          assume a: "map fst fills1 = [?taker] \<and> ?taker \<in> tracked_order_ids ucm
                     \<and> ?taker \<notin> tracked_order_ids ucm1"
          with mk have "?taker \<notin> set (map fst fills2)" by blast
          with a mk t1 res show ?thesis by auto
        qed
      qed
    qed
  qed
qed

lemma handle_order_update_tracked:
  "tracked_order_ids (fst (handle_order_update ucm data)) \<subseteq> tracked_order_ids ucm"
  by (auto simp: handle_order_update_def Let_def split: sum.splits)

lemma channel_step_untracked:
  assumes "channel_step ucm i = (ucm', fs)" "x \<notin> tracked_order_ids ucm" "i \<noteq> TrackOrder x"
  shows "x \<notin> tracked_order_ids ucm' \<and> x \<notin> set (map fst fs)"
proof (cases i)
  case (TrackOrder oid)
  with assms show ?thesis by (auto simp: uc_track_order_def)
next
  case (UntrackOrder oid)
  with assms show ?thesis by (auto simp: uc_untrack_order_def)
next
  case (Trade data)
  obtain u f er where h: "handle_trade ucm data = (u, f, er)"
    by (cases "handle_trade ucm data") auto
  with Trade assms have "ucm' = u" "fs = f" by simp_all
  with handle_trade_props[OF h] assms(2) show ?thesis by blast
next
  case (OrderUpdate data)
  with assms handle_order_update_tracked[of ucm data] show ?thesis by auto
qed

lemma channel_run_untracked:
  assumes "channel_run ucm inputs = (ucm', fs)" "x \<notin> tracked_order_ids ucm"
    "TrackOrder x \<notin> set inputs"
  shows "x \<notin> tracked_order_ids ucm' \<and> x \<notin> set (map fst fs)"
  using assms
proof (induction inputs arbitrary: ucm ucm' fs)
  case Nil
  then show ?case by simp
next
  case (Cons i rest)
  obtain u1 f1 where s: "channel_step ucm i = (u1, f1)" by (cases "channel_step ucm i") auto
  obtain u2 f2 where r: "channel_run u1 rest = (u2, f2)" by (cases "channel_run u1 rest") auto
  from s r Cons.prems(1) have res: "ucm' = u2" "fs = f1 @ f2" by simp_all
  from Cons.prems(3) have ne: "i \<noteq> TrackOrder x" and nr: "TrackOrder x \<notin> set rest" by auto
  from channel_step_untracked[OF s Cons.prems(2) ne]
  have a: "x \<notin> tracked_order_ids u1" "x \<notin> set (map fst f1)" by simp_all
  from Cons.IH[OF r a(1) nr] a(2) res show ?case by auto
qed

lemma distinct_filter_one:
  "distinct (map f xs) \<Longrightarrow> k \<in> set (map f xs) \<Longrightarrow> length (filter (\<lambda>y. f y = k) xs) = 1"
proof (induction xs)
  case Nil
  then show ?case by simp
next
  case (Cons a xs)
  show ?case
  proof (cases "f a = k")
    case True
    with Cons.prems(1) have "filter (\<lambda>y. f y = k) xs = []"
      by (auto simp: filter_empty_conv) (metis imageI)
    with True show ?thesis by simp
  next
    case False
    with Cons show ?thesis by auto
  qed
qed

lemma trade_twice_handled:
  "handle_trade channel_tracking trade_twice =
     (channel_tracking\<lparr>tracked_order_ids := {}\<rparr>, [(''trap-y'', YES, 12/25, 10)], None)"
  by (simp add: handle_trade_def channel_tracking_def trade_twice_def process_fill_def
      str_or_empty_def default_config_def Let_def)

lemma trade_twice_again:
  "channel_run (channel_tracking\<lparr>tracked_order_ids := {}\<rparr>) [UntrackOrder ''trap-n'', Trade trade_twice] =
     (channel_tracking\<lparr>tracked_order_ids := {}\<rparr>, [])"
  by (simp add: handle_trade_def channel_tracking_def trade_twice_def process_fill_def
      str_or_empty_def default_config_def uc_untrack_order_def Let_def)

text \<open>
  C9. When a trade event makes the manager hand a fill for an order id to the callback,
  the id is no longer tracked afterwards, the event hands over exactly one fill for it
  (whether the id is the taker, a maker, or both), and no later input produces another
  fill for it unless the engine tracks the id again.
\<close>

theorem at_most_one_fill_per_order_id:
  assumes "handle_trade ucm data = (ucm1, fills1, err)"
    and "oid \<in> set (map fst fills1)"
    and "channel_run ucm1 inputs = (ucm2, fills2)"
    and "TrackOrder oid \<notin> set inputs"
  shows "oid \<notin> tracked_order_ids ucm1
         \<and> length (filter (\<lambda>f. fst f = oid) fills1) = 1
         \<and> oid \<notin> set (map fst fills2)"
proof -
  from handle_trade_props[OF assms(1)] assms(2)
  have a: "oid \<notin> tracked_order_ids ucm1" and d: "distinct (map fst fills1)" by auto
  from distinct_filter_one[OF d assms(2)] channel_run_untracked[OF assms(3) a assms(4)] a
  show ?thesis by simp
qed

theorem at_most_one_fill_per_order_id_witness:
  "handle_trade channel_tracking trade_twice =
     (channel_tracking\<lparr>tracked_order_ids := {}\<rparr>, [(''trap-y'', YES, 12/25, 10)], None)
   \<and> channel_run (channel_tracking\<lparr>tracked_order_ids := {}\<rparr>)
         [UntrackOrder ''trap-n'', Trade trade_twice] =
       (channel_tracking\<lparr>tracked_order_ids := {}\<rparr>, [])
   \<and> ''trap-y'' \<notin> tracked_order_ids (channel_tracking\<lparr>tracked_order_ids := {}\<rparr>)
   \<and> length (filter (\<lambda>f. fst f = ''trap-y'') [(''trap-y'', YES, 12/25 :: rat, 10 :: rat)]) = 1"
proof -
  have m: "''trap-y'' \<in> set (map fst [(''trap-y'', YES, 12/25, 10::rat)])" by simp
  have t: "TrackOrder ''trap-y'' \<notin> set [UntrackOrder ''trap-n'', Trade trade_twice]" by simp
  from at_most_one_fill_per_order_id[OF trade_twice_handled m trade_twice_again t]
    trade_twice_handled trade_twice_again
  show ?thesis by blast
qed

end
